theory Spec2Isabelle
  imports Complex_Main "HOL-Library.Word" "HOL-Library.Multiset" "HOL-Library.Product_Lexorder"
    "HOL-Library.List_Lexorder"
begin

section \<open>JavaScript strings\<close>

text \<open>
  A JavaScript string is a sequence of UTF-16 code units, and \<open>length\<close>,
  \<open>substring\<close>, \<open>split\<close> and \<open>trim\<close> all count code units.  The separators
  and the ellipsis of \<open>shortenAssignmentName\<close> lie outside ASCII, so strings are
  lists of 16-bit words rather than HOL's 8-bit characters.
\<close>

type_synonym jsstring = "16 word list"

definition utf16 :: "string \<Rightarrow> jsstring" where
  "utf16 s = map (\<lambda>c. of_char c) s"

text \<open>
  \<open>String.prototype.trim\<close> removes WhiteSpace and LineTerminator code points from
  both ends (ECMAScript, TrimString).
\<close>

definition isWhiteSpace :: "16 word \<Rightarrow> bool" where
  "isWhiteSpace c \<longleftrightarrow>
     c = 0x0009 \<or> c = 0x000A \<or> c = 0x000B \<or> c = 0x000C \<or> c = 0x000D \<or>
     c = 0x0020 \<or> c = 0x00A0 \<or> c = 0x1680 \<or> (0x2000 \<le> c \<and> c \<le> 0x200A) \<or>
     c = 0x2028 \<or> c = 0x2029 \<or> c = 0x202F \<or> c = 0x205F \<or> c = 0x3000 \<or>
     c = 0xFEFF"

definition trim :: "jsstring \<Rightarrow> jsstring" where
  "trim s = rev (dropWhile isWhiteSpace (rev (dropWhile isWhiteSpace s)))"

text \<open>
  \<open>s.split(re)\<close> for a regular expression matching exactly one code unit: the
  pieces between the matches, empty pieces included, so a string with \<open>n\<close> matches
  gives \<open>n + 1\<close> pieces and a string with none gives the string itself.
\<close>

fun split_on :: "('a \<Rightarrow> bool) \<Rightarrow> 'a list \<Rightarrow> 'a list list" where
  "split_on p [] = [[]]"
| "split_on p (x # xs) =
     (if p x then [] # split_on p xs
      else (case split_on p xs of [] \<Rightarrow> [[x]] | y # ys \<Rightarrow> (x # y) # ys))"

section \<open>Assignment helper\<close>

text \<open>
  The separators of the regular expression: colon, hyphen-minus, en dash (U+2013)
  and em dash (U+2014); the ellipsis is U+2026.
\<close>

definition isSeparator :: "16 word \<Rightarrow> bool" where
  "isSeparator c \<longleftrightarrow> c = 0x003A \<or> c = 0x002D \<or> c = 0x2013 \<or> c = 0x2014"

definition ellipsis :: "16 word" where
  "ellipsis = 0x2026"

definition defaultMaxLen :: nat where
  "defaultMaxLen = 45"

definition shortenAssignmentName :: "jsstring \<Rightarrow> nat \<Rightarrow> jsstring" where
  "shortenAssignmentName fullName maxLen =
     (if length fullName \<le> maxLen then fullName
      else
        let parts = split_on isSeparator fullName;
            lastPart = trim (last parts)
        in if length parts > 1 \<and> length lastPart > 10 \<and> length lastPart \<le> maxLen
           then lastPart
           else take maxLen fullName @ [ellipsis])"

section \<open>JavaScript values\<close>

text \<open>
  The loosely typed fields of a submission (\<open>grade\<close>, \<open>score\<close>) are tested for
  truthiness and spliced into a template literal, so they are modelled as JavaScript
  values.  Numbers are the integers: a fractional score and the exponent notation of
  integers from \<open>10^21\<close> on are outside the model.
\<close>

datatype jsval = Undefined | Null | Str jsstring | Num int

fun truthy :: "jsval \<Rightarrow> bool" where
  "truthy Undefined = False"
| "truthy Null = False"
| "truthy (Str s) = (s \<noteq> [])"
| "truthy (Num n) = (n \<noteq> 0)"

text \<open>\<open>a || b\<close>\<close>

definition js_or :: "jsval \<Rightarrow> jsval \<Rightarrow> jsval" where
  "js_or a b = (if truthy a then a else b)"

text \<open>Truthiness of a nullable string: \<open>null\<close>, \<open>undefined\<close> and \<open>''\<close> are falsy.\<close>

fun truthyStr :: "jsstring option \<Rightarrow> bool" where
  "truthyStr None = False"
| "truthyStr (Some s) = (s \<noteq> [])"

fun digits :: "nat \<Rightarrow> jsstring" where
  "digits n =
     (if n < 10 then [of_nat (48 + n)]
      else digits (n div 10) @ [of_nat (48 + n mod 10)])"

declare digits.simps [simp del]

definition showInt :: "int \<Rightarrow> jsstring" where
  "showInt i = (if i < 0 then 0x002D # digits (nat (- i)) else digits (nat i))"

text \<open>The string a template literal \<open>`${v}`\<close> splices in.\<close>

fun toStr :: "jsval \<Rightarrow> jsstring" where
  "toStr Undefined = utf16 ''undefined''"
| "toStr Null = utf16 ''null''"
| "toStr (Str s) = s"
| "toStr (Num n) = showInt n"

section \<open>Dates\<close>

text \<open>
  A \<open>Date\<close> holds a time value, milliseconds since the epoch, or \<open>NaN\<close> (an
  "Invalid Date").  Every comparison with an invalid date is false.

  The browser supplies the parser behind \<open>new Date(text)\<close>, the locale's rendering
  behind \<open>toLocaleString\<close> (here always with the options month short, day numeric,
  hour and minute 2-digit) and the time zone.  The time zone is given by the two
  conversions of ECMAScript: \<open>toLocal\<close> is LocalTime, from a time value to the
  local time, the milliseconds the local clock shows counted from the local epoch,
  and \<open>fromLocal\<close> is UTC, from a local time back to a time value.  With
  daylight saving they are not a fixed shift: a local time that the clock skips or
  shows twice is resolved by the browser.  The clipping of time values at
  \<open>\<plusminus>8.64e15\<close> is outside the model.
\<close>

datatype jsdate = InvalidDate | Instant int

record runtime =
  parseDate :: "jsstring \<Rightarrow> jsdate"
  localeFormat :: "int \<Rightarrow> jsstring"
  toLocal :: "int \<Rightarrow> int"
  fromLocal :: "int \<Rightarrow> int"

definition msPerDay :: int where
  "msPerDay = 86400000"

text \<open>The local time at 00:00:00.000 of the day of a local time: MakeDate(Day(t), 0).\<close>

definition dayStart :: "int \<Rightarrow> int" where
  "dayStart l = l - l mod msPerDay"

text \<open>
  \<open>d.setHours(0, 0, 0, 0)\<close> on a valid date: the local time of the date with the
  time within the day replaced, converted back.
\<close>

definition startOfDay :: "runtime \<Rightarrow> int \<Rightarrow> int" where
  "startOfDay rt t = fromLocal rt (dayStart (toLocal rt t))"

text \<open>\<open>d.setHours(23, 59, 59, 999)\<close> on a valid date.\<close>

definition endOfDay :: "runtime \<Rightarrow> int \<Rightarrow> int" where
  "endOfDay rt t = fromLocal rt (dayStart (toLocal rt t) + (msPerDay - 1))"

text \<open>
  \<open>d.setDate(d.getDate() + n)\<close> on a valid date: the local time moved by \<open>n\<close>
  calendar days, the time within the day kept, converted back.
\<close>

definition addDays :: "runtime \<Rightarrow> int \<Rightarrow> int \<Rightarrow> int" where
  "addDays rt n t = fromLocal rt (toLocal rt t + n * msPerDay)"

fun setHours0 :: "runtime \<Rightarrow> jsdate \<Rightarrow> jsdate" where
  "setHours0 rt InvalidDate = InvalidDate"
| "setHours0 rt (Instant t) = Instant (startOfDay rt t)"

text \<open>\<open>d >= t\<close>, \<open>d <= t\<close> and \<open>d.getTime() === t\<close> for a date \<open>d\<close> and a valid \<open>t\<close>.\<close>

fun date_ge :: "jsdate \<Rightarrow> int \<Rightarrow> bool" where
  "date_ge InvalidDate t = False"
| "date_ge (Instant d) t = (t \<le> d)"

fun date_le :: "jsdate \<Rightarrow> int \<Rightarrow> bool" where
  "date_le InvalidDate t = False"
| "date_le (Instant d) t = (d \<le> t)"

fun time_eq :: "jsdate \<Rightarrow> int \<Rightarrow> bool" where
  "time_eq InvalidDate t = False"
| "time_eq (Instant d) t = (d = t)"

text \<open>\<open>new Date(v)\<close> for a nullable string: \<open>new Date(null)\<close> is the epoch.\<close>

fun newDate :: "runtime \<Rightarrow> jsstring option \<Rightarrow> jsdate" where
  "newDate rt None = Instant 0"
| "newDate rt (Some s) = parseDate rt s"

fun toLocaleString :: "runtime \<Rightarrow> jsdate \<Rightarrow> jsstring" where
  "toLocaleString rt InvalidDate = utf16 ''Invalid Date''"
| "toLocaleString rt (Instant t) = localeFormat rt t"

section \<open>Format data\<close>

record submission =
  workflow_state :: jsstring
  grade :: jsval
  score :: jsval
  preview_url :: "jsstring option"

record rawAssignment =
  raw_course :: jsstring
  raw_name :: jsstring
  due_at :: "jsstring option"
  submission :: "submission option"

text \<open>\<open>urgency\<close> is \<open>null\<close>, \<open>'today'\<close> or \<open>'week'\<close>.\<close>

datatype urgency = NoUrgency | Today | Week

text \<open>
  \<open>isUrgent\<close> is \<open>dueDate && \<dots>\<close>: \<open>null\<close> (here \<open>None\<close>) when there is no
  due date, a boolean otherwise.
\<close>

record assignmentView =
  course :: jsstring
  name :: jsstring
  shortName :: jsstring
  due :: jsstring
  dueDate :: "jsstring option"
  status :: jsstring
  url :: jsstring
  isUrgent :: "bool option"
  hasDueDate :: bool
  urgency :: urgency

text \<open>
  The four dates \<open>formatAssignmentData\<close> computes before it maps over the
  assignments, as functions of the runtime and of the clock (\<open>new Date()\<close>).
  The source's \<open>now\<close> is the clock set back to midnight.
\<close>

definition now0 :: "runtime \<Rightarrow> int \<Rightarrow> int" where
  "now0 rt clock = startOfDay rt clock"

definition oneWeekOut :: "runtime \<Rightarrow> int \<Rightarrow> int" where
  "oneWeekOut rt clock = endOfDay rt (addDays rt 7 (now0 rt clock))"

definition today0 :: "runtime \<Rightarrow> int \<Rightarrow> int" where
  "today0 rt clock = startOfDay rt (now0 rt clock)"

definition tomorrowStart :: "runtime \<Rightarrow> int \<Rightarrow> int" where
  "tomorrowStart rt clock = addDays rt 1 (today0 rt clock)"

definition statusStr :: "submission option \<Rightarrow> jsstring" where
  "statusStr sub =
     (case sub of
        None \<Rightarrow> utf16 ''Not submitted''
      | Some s \<Rightarrow>
          if workflow_state s = utf16 ''graded'' then
            (let g = js_or (grade s) (score s)
             in if truthy g then utf16 ''Graded: '' @ toStr g else utf16 ''Graded'')
          else if workflow_state s = utf16 ''submitted'' then utf16 ''Submitted''
          else utf16 ''Not submitted'')"

definition formatAssignment :: "runtime \<Rightarrow> int \<Rightarrow> rawAssignment \<Rightarrow> assignmentView" where
  "formatAssignment rt clock a =
     (let dueDate0 = (if truthyStr (due_at a) then Some (newDate rt (due_at a)) else None);
          dueStr = (case dueDate0 of
                      Some d \<Rightarrow> toLocaleString rt d
                    | None \<Rightarrow> utf16 ''No due date'');
          urgency0 = (case dueDate0 of
                        None \<Rightarrow> NoUrgency
                      | Some d \<Rightarrow>
                          if time_eq (setHours0 rt d) (today0 rt clock) then Today
                          else if date_ge d (tomorrowStart rt clock)
                                  \<and> date_le d (oneWeekOut rt clock) then Week
                          else NoUrgency);
          isUrgent0 = (case dueDate0 of
                         None \<Rightarrow> None
                       | Some d \<Rightarrow>
                           Some (date_ge d (now0 rt clock)
                                 \<and> date_le d (oneWeekOut rt clock)))
      in \<lparr> course = raw_course a,
           name = raw_name a,
           shortName = shortenAssignmentName (raw_name a) defaultMaxLen,
           due = dueStr,
           dueDate = due_at a,
           status = statusStr (submission a),
           url = (case submission a of
                    None \<Rightarrow> []
                  | Some s \<Rightarrow> (case preview_url s of None \<Rightarrow> [] | Some u \<Rightarrow> u)),
           isUrgent = isUrgent0,
           hasDueDate = (dueDate0 \<noteq> None),
           urgency = urgency0 \<rparr>)"

text \<open>\<open>canvasData.assignments || []\<close>, mapped.\<close>

definition formatAssignmentData ::
  "runtime \<Rightarrow> int \<Rightarrow> rawAssignment list option \<Rightarrow> assignmentView list" where
  "formatAssignmentData rt clock assignments =
     map (formatAssignment rt clock) (case assignments of None \<Rightarrow> [] | Some xs \<Rightarrow> xs)"

section \<open>Sort\<close>

text \<open>
  The numbers a sort comparator returns: a finite difference, an infinity, or
  \<open>NaN\<close> (\<open>Infinity - Infinity\<close>).  Time values are integers, so a finite
  difference has the sign of the exact one.
\<close>

datatype jsnum = NaN | NegInf | Fin int | PosInf

fun js_minus :: "jsnum \<Rightarrow> jsnum \<Rightarrow> jsnum" where
  "js_minus NaN y = NaN"
| "js_minus x NaN = NaN"
| "js_minus (Fin a) (Fin b) = Fin (a - b)"
| "js_minus (Fin a) PosInf = NegInf"
| "js_minus (Fin a) NegInf = PosInf"
| "js_minus PosInf PosInf = NaN"
| "js_minus PosInf y = PosInf"
| "js_minus NegInf NegInf = NaN"
| "js_minus NegInf y = NegInf"

text \<open>\<open>v > 0\<close>; \<open>Array.prototype.sort\<close> reads a \<open>NaN\<close> from the comparator as \<open>+0\<close>.\<close>

fun positive :: "jsnum \<Rightarrow> bool" where
  "positive (Fin n) = (0 < n)"
| "positive PosInf = True"
| "positive NaN = False"
| "positive NegInf = False"

text \<open>
  \<open>Array.prototype.sort(cmp)\<close> is stable (ECMAScript 2019), and for a consistent
  comparator the sorted order is then unique: each element goes behind the elements
  it compares greater than and before the first one it does not.
\<close>

fun js_insert :: "('a \<Rightarrow> 'a \<Rightarrow> jsnum) \<Rightarrow> 'a \<Rightarrow> 'a list \<Rightarrow> 'a list" where
  "js_insert cmp x [] = [x]"
| "js_insert cmp x (y # ys) =
     (if positive (cmp x y) then y # js_insert cmp x ys else x # y # ys)"

definition js_sort :: "('a \<Rightarrow> 'a \<Rightarrow> jsnum) \<Rightarrow> 'a list \<Rightarrow> 'a list" where
  "js_sort cmp xs = foldr (js_insert cmp) xs []"

definition dateValue :: "runtime \<Rightarrow> assignmentView \<Rightarrow> jsstring \<Rightarrow> jsnum" where
  "dateValue rt a direction =
     (if \<not> hasDueDate a \<or> \<not> truthyStr (dueDate a)
      then (if direction = utf16 ''asc'' then PosInf else NegInf)
      else (case newDate rt (dueDate a) of
              InvalidDate \<Rightarrow> (if direction = utf16 ''asc'' then PosInf else NegInf)
            | Instant t \<Rightarrow> Fin t))"

text \<open>
  \<open>localeCompare\<close> is the browser's collation of two strings in the user's
  locale, a parameter of the model: a negative, zero or positive integer.
\<close>

definition sortAssignments ::
  "runtime \<Rightarrow> (jsstring \<Rightarrow> jsstring \<Rightarrow> int) \<Rightarrow> assignmentView list \<Rightarrow> jsstring
     \<Rightarrow> assignmentView list" where
  "sortAssignments rt localeCompare assignments sortBy =
     (if sortBy = utf16 ''due-desc'' then
        js_sort (\<lambda>a b. js_minus (dateValue rt b (utf16 ''desc'')) (dateValue rt a (utf16 ''desc'')))
          assignments
      else if sortBy = utf16 ''course'' then
        js_sort (\<lambda>a b. Fin (localeCompare (course a) (course b))) assignments
      else if sortBy = utf16 ''status'' then
        js_sort (\<lambda>a b. Fin (localeCompare (status a) (status b))) assignments
      else
        js_sort (\<lambda>a b. js_minus (dateValue rt a (utf16 ''asc'')) (dateValue rt b (utf16 ''asc'')))
          assignments)"

section \<open>Seen announcements (local state)\<close>

text \<open>
  The slot \<open>butler_seen_announcements\<close> of \<open>localStorage\<close> is absent
  (\<open>getItem\<close> gives \<open>null\<close>) or holds a text.  The code reads the text only
  through its truthiness and \<open>JSON.parse\<close> and writes only what
  \<open>JSON.stringify\<close> returns, so a text is modelled by what \<open>JSON.parse\<close> makes of
  it: the empty text, a text that is not JSON (\<open>JSON.parse\<close> throws a
  \<open>SyntaxError\<close>), or the JSON text of an object, which \<open>JSON.parse\<close> turns
  into that object and which \<open>JSON.stringify\<close> of the object gives back.  The
  ledger's values are strings.  A JSON text of something other than an object, and
  the storage quota, are outside the model.
\<close>

type_synonym ledger = "jsstring \<rightharpoonup> jsstring"

datatype stored = EmptyText | Malformed | Encodes ledger

type_synonym slot = "stored option"

datatype js_error = SyntaxError

text \<open>
  A parsed object is a plain object: its prototype is \<open>Object.prototype\<close>, whose
  properties the \<open>in\<close> operator finds too, and whose \<open>__proto__\<close> setter takes an
  assignment \<open>seen['__proto__'] = v\<close> unless the object has that key itself; for a
  string \<open>v\<close> the setter does nothing.
\<close>

definition objectPrototypeKeys :: "jsstring list" where
  "objectPrototypeKeys =
     map utf16
       [''constructor'', ''hasOwnProperty'', ''isPrototypeOf'', ''propertyIsEnumerable'',
        ''toLocaleString'', ''toString'', ''valueOf'', ''__proto__'',
        ''__defineGetter__'', ''__defineSetter__'', ''__lookupGetter__'', ''__lookupSetter__'']"

text \<open>\<open>obj[k] = v\<close> for a string \<open>v\<close>.\<close>

definition obj_set :: "ledger \<Rightarrow> jsstring \<Rightarrow> jsstring \<Rightarrow> ledger" where
  "obj_set seen k v = (if k = utf16 ''__proto__'' \<and> seen k = None then seen else seen(k \<mapsto> v))"

text \<open>\<open>k in obj\<close>\<close>

definition js_in :: "jsstring \<Rightarrow> ledger \<Rightarrow> bool" where
  "js_in k seen \<longleftrightarrow> seen k \<noteq> None \<or> k \<in> set objectPrototypeKeys"

text \<open>\<open>Inl\<close> is the exception thrown; the storage is then as it was.\<close>

definition getSeenAnnouncements :: "slot \<Rightarrow> js_error + ledger" where
  "getSeenAnnouncements stored =
     (case stored of
        None \<Rightarrow> Inr Map.empty
      | Some EmptyText \<Rightarrow> Inr Map.empty
      | Some Malformed \<Rightarrow> Inl SyntaxError
      | Some (Encodes seen) \<Rightarrow> Inr seen)"

definition markAnnouncementSeen :: "jsstring \<Rightarrow> jsstring \<Rightarrow> slot \<Rightarrow> js_error + slot" where
  "markAnnouncementSeen id0 postedAt stored =
     (case getSeenAnnouncements stored of
        Inl e \<Rightarrow> Inl e
      | Inr seen \<Rightarrow> Inr (Some (Encodes (obj_set seen id0 postedAt))))"

definition isAnnouncementSeen :: "jsstring \<Rightarrow> slot \<Rightarrow> js_error + bool" where
  "isAnnouncementSeen id0 stored =
     (case getSeenAnnouncements stored of
        Inl e \<Rightarrow> Inl e
      | Inr seen \<Rightarrow> Inr (js_in id0 seen))"

section \<open>Notifications\<close>

text \<open>
  \<open>localStorage\<close> as \<open>sendNotifications\<close> uses it: string keys, string values;
  \<open>getItem\<close> of a missing key is \<open>null\<close>.
\<close>

type_synonym storage = "jsstring \<rightharpoonup> jsstring"

record notification =
  title :: jsstring
  body :: jsstring
  icon :: jsstring
  tag :: jsstring

text \<open>\<open>Notification.permission\<close>: \<open>'granted'\<close>, \<open>'denied'\<close> or \<open>'default'\<close>.\<close>

datatype permission = Granted | Denied | Default

text \<open>What one call does: the notifications shown, the storage, a permission request.\<close>

record sendResult =
  shown :: "notification list"
  storage :: storage
  requested :: bool

text \<open>\<open>xs.join(', ')\<close>\<close>

fun join :: "jsstring \<Rightarrow> jsstring list \<Rightarrow> jsstring" where
  "join sep [] = []"
| "join sep [x] = x"
| "join sep (x # y # ys) = x @ sep @ join sep (y # ys)"

text \<open>
  \<open>Math.ceil(ms / (1000 * 60 * 60 * 24))\<close>.  The quotient of two integers of a
  date's size is rounded to a double without crossing an integer, so the integer
  ceiling is exact; \<open>-0\<close> is \<open>0\<close>.
\<close>

definition ceilDays :: "int \<Rightarrow> int" where
  "ceilDays ms = - ((- ms) div msPerDay)"

definition notifyKey :: "jsstring \<Rightarrow> jsstring" where
  "notifyKey expiration = utf16 ''canvasTokenExpiryNotified:'' @ expiration"

definition urgentNotice :: "runtime \<Rightarrow> int \<Rightarrow> assignmentView list \<Rightarrow> notification list" where
  "urgentNotice rt clock assignments =
     (let tomorrow = startOfDay rt (addDays rt 1 clock);
          urgent = filter (\<lambda>a. hasDueDate a \<and> date_le (newDate rt (dueDate a)) tomorrow
                                 \<and> status a = utf16 ''Not submitted'') assignments
      in if length urgent > 0 then
           [\<lparr> title = (if length urgent = 1 then utf16 ''1 assignment due soon''
                       else showInt (int (length urgent)) @ utf16 '' assignments due soon''),
               body = join (utf16 '', '')
                        (map (\<lambda>a. course a @ utf16 '': '' @ shortName a) (take 2 urgent)),
               icon = utf16 ''/favicon.ico'',
               tag = utf16 ''assignment-urgent'' \<rparr>]
         else [])"

text \<open>
  The Canvas token expiration warning: the notification, if one is shown, and the
  storage afterwards.  \<open>expiration\<close> is \<open>config?.canvas?.token_expiration\<close>.
\<close>

definition expiryNotice ::
  "runtime \<Rightarrow> int \<Rightarrow> storage \<Rightarrow> jsstring option \<Rightarrow> notification list \<times> storage" where
  "expiryNotice rt clock store expiration =
     (case expiration of
        None \<Rightarrow> ([], store)
      | Some e \<Rightarrow>
          if e = [] then ([], store)
          else (case parseDate rt (e @ utf16 ''T00:00:00'') of
                  InvalidDate \<Rightarrow> ([], store)
                | Instant expiry \<Rightarrow>
                    let msUntil = expiry - clock;
                        daysUntil = ceilDays msUntil
                    in if 0 \<le> daysUntil \<and> daysUntil \<le> 7 \<and> \<not> truthyStr (store (notifyKey e))
                       then ([\<lparr> title = utf16 ''Canvas token expiring soon'',
                                 body = utf16 ''Your Canvas API token expires in '' @ showInt daysUntil
                                        @ utf16 '' day'' @ (if daysUntil = 1 then [] else utf16 ''s'')
                                        @ utf16 ''.'',
                                 icon = utf16 ''/favicon.ico'',
                                 tag = utf16 ''canvas-token-expiry'' \<rparr>],
                             store(notifyKey e \<mapsto> utf16 ''true''))
                       else ([], store)))"

text \<open>\<open>supported\<close> is \<open>'Notification' in window\<close>.\<close>

definition sendNotifications ::
  "runtime \<Rightarrow> bool \<Rightarrow> permission \<Rightarrow> int \<Rightarrow> storage \<Rightarrow> assignmentView list
     \<Rightarrow> jsstring option \<Rightarrow> sendResult" where
  "sendNotifications rt supported perm clock store assignments expiration =
     (if \<not> supported then \<lparr> shown = [], storage = store, requested = False \<rparr>
      else if perm = Granted then
        (let (notes, store') = expiryNotice rt clock store expiration
         in \<lparr> shown = urgentNotice rt clock assignments @ notes,
              storage = store', requested = False \<rparr>)
      else if perm \<noteq> Denied then \<lparr> shown = [], storage = store, requested = True \<rparr>
      else \<lparr> shown = [], storage = store, requested = False \<rparr>)"

text \<open>
  A sequence of notification passes with permission granted, each with the clock,
  the assignments and the configured expiration date of its render, run one after
  the other: the storage they leave.
\<close>

fun storageAfter ::
  "runtime \<Rightarrow> storage \<Rightarrow> (int \<times> assignmentView list \<times> jsstring option) list \<Rightarrow> storage" where
  "storageAfter rt store [] = store"
| "storageAfter rt store ((clock, assignments, expiration) # rest) =
     storageAfter rt
       (storage (sendNotifications rt True Granted clock store assignments expiration)) rest"

section \<open>Notions of the specification\<close>






text \<open>The due instant of a view, when it has a due date that parses.\<close>

definition dueInstant :: "runtime \<Rightarrow> assignmentView \<Rightarrow> int option" where
  "dueInstant rt a =
     (if hasDueDate a \<and> truthyStr (dueDate a)
      then (case newDate rt (dueDate a) of InvalidDate \<Rightarrow> None | Instant t \<Rightarrow> Some t)
      else None)"

text \<open>
  \<open>a\<close> may stand before \<open>b\<close> in ascending, and in descending, order of due
  instant, a view without a due instant standing behind every view that has one.
\<close>

definition dueAscending :: "runtime \<Rightarrow> assignmentView \<Rightarrow> assignmentView \<Rightarrow> bool" where
  "dueAscending rt a b =
     (case (dueInstant rt a, dueInstant rt b) of
        (Some s, Some t) \<Rightarrow> s \<le> t
      | (None, Some t) \<Rightarrow> False
      | (_, None) \<Rightarrow> True)"

definition dueDescending :: "runtime \<Rightarrow> assignmentView \<Rightarrow> assignmentView \<Rightarrow> bool" where
  "dueDescending rt a b =
     (case (dueInstant rt a, dueInstant rt b) of
        (Some s, Some t) \<Rightarrow> t \<le> s
      | (None, Some t) \<Rightarrow> False
      | (_, None) \<Rightarrow> True)"

text \<open>
  The same orders as keys in a linear order: a flag for "no due instant", then the
  instant, negated for the descending order.
\<close>

definition instantKey :: "bool \<Rightarrow> int option \<Rightarrow> bool \<times> int" where
  "instantKey desc k = (case k of None \<Rightarrow> (True, 0) | Some t \<Rightarrow> (False, if desc then - t else t))"

definition ascKey :: "runtime \<Rightarrow> assignmentView \<Rightarrow> bool \<times> int" where
  "ascKey rt a = instantKey False (dueInstant rt a)"

definition descKey :: "runtime \<Rightarrow> assignmentView \<Rightarrow> bool \<times> int" where
  "descKey rt a = instantKey True (dueInstant rt a)"

text \<open>The dedup key of an expiration date holds a non-empty value.\<close>

definition keyFired :: "storage \<Rightarrow> jsstring \<Rightarrow> bool" where
  "keyFired store e = truthyStr (store (notifyKey e))"

text \<open>The token expiration warnings among the notifications a result shows.\<close>

definition tokenNotices :: "sendResult \<Rightarrow> notification list" where
  "tokenNotices r = filter (\<lambda>n. tag n = utf16 ''canvas-token-expiry'') (shown r)"

text \<open>
  The whole days from the clock until the expiry, rounded up: the ceiling of the
  quotient of the milliseconds by the milliseconds of a day, over the reals.
\<close>

definition wholeDaysUntil :: "int \<Rightarrow> int \<Rightarrow> int" where
  "wholeDaysUntil expiry clock = \<lceil>real_of_int (expiry - clock) / 86400000\<rceil>"

text \<open>
  How many token expiration warnings the passes of a sequence, run one after the
  other from a storage, showed in all while the expiration date \<open>e\<close> was
  configured.
\<close>

fun expiryNotices ::
  "runtime \<Rightarrow> storage \<Rightarrow> (int \<times> assignmentView list \<times> jsstring option) list \<Rightarrow> jsstring
     \<Rightarrow> nat" where
  "expiryNotices rt store [] e = 0"
| "expiryNotices rt store ((clock, assignments, expiration) # rest) e =
     (let r = sendNotifications rt True Granted clock store assignments expiration
      in (if expiration = Some e then length (tokenNotices r) else 0)
         + expiryNotices rt (storage r) rest e)"

section \<open>Sample runtimes\<close>

text \<open>
  For the concrete examples: a browser in UTC with an English locale, given by what
  its date parser and its \<open>toLocaleString\<close> return on the texts and instants the
  examples use.
\<close>

definition sampleParse :: "jsstring \<Rightarrow> jsdate" where
  "sampleParse s =
     (if s = utf16 ''2024-03-10T01:00:00Z'' then Instant 1710032400000
      else if s = utf16 ''2024-03-10T04:30:00Z'' then Instant 1710045000000
      else if s = utf16 ''2024-03-10T23:59:00Z'' then Instant 1710115140000
      else if s = utf16 ''2024-03-11T00:00:00Z'' then Instant 1710115200000
      else if s = utf16 ''2024-03-16T04:30:00Z'' then Instant 1710563400000
      else if s = utf16 ''2024-03-16T00:00:00'' then Instant 1710547200000
      else if s = utf16 ''2024-03-17T00:00:00'' then Instant 1710633600000
      else InvalidDate)"

definition sampleFormat :: "int \<Rightarrow> jsstring" where
  "sampleFormat t =
     (if t = 1710032400000 then utf16 ''Mar 10, 01:00 AM''
      else if t = 1710115140000 then utf16 ''Mar 10, 11:59 PM''
      else if t = 1710115200000 then utf16 ''Mar 11, 12:00 AM''
      else [])"

definition sampleRuntime :: runtime where
  "sampleRuntime =
     \<lparr> parseDate = sampleParse, localeFormat = sampleFormat,
       toLocal = (\<lambda>t. t), fromLocal = (\<lambda>l. l) \<rparr>"





text \<open>
  The collation of the English locale on strings of ASCII letters, as
  \<open>localeCompare\<close> returns it there: alphabetical without regard to case, and, for
  strings that differ in case only, lower case before upper case at the first
  difference.
\<close>

definition isUpperUnit :: "16 word \<Rightarrow> bool" where
  "isUpperUnit c \<longleftrightarrow> 0x0041 \<le> c \<and> c \<le> 0x005A"

definition toLowerUnit :: "16 word \<Rightarrow> 16 word" where
  "toLowerUnit c = (if isUpperUnit c then c + 0x0020 else c)"

definition collationKey :: "jsstring \<Rightarrow> jsstring \<times> bool list" where
  "collationKey s = (map toLowerUnit s, map isUpperUnit s)"

definition sampleLocaleCompare :: "jsstring \<Rightarrow> jsstring \<Rightarrow> int" where
  "sampleLocaleCompare x y =
     (if collationKey x < collationKey y then - 1
      else if collationKey x = collationKey y then 0 else 1)"

text \<open>The clock of the examples: 2024-03-10T08:00:00Z.\<close>

definition sampleClock :: int where
  "sampleClock = 1710057600000"

definition sampleAssignment :: "jsstring option \<Rightarrow> submission option \<Rightarrow> rawAssignment" where
  "sampleAssignment d sub =
     \<lparr> raw_course = utf16 ''CS 101'', raw_name = utf16 ''Homework 3'', due_at = d,
       submission = sub \<rparr>"

text \<open>
  Three normalized assignments: of the course "Banana", graded, due 2024-03-11; of
  the course "Apple", not submitted, with an unparseable due date; of the course
  "apple", submitted, due 2024-03-10.
\<close>

definition sampleViews :: "assignmentView list" where
  "sampleViews =
     formatAssignmentData sampleRuntime sampleClock
       (Some [\<lparr> raw_course = utf16 ''Banana'', raw_name = utf16 ''Essay'',
                 due_at = Some (utf16 ''2024-03-11T00:00:00Z''),
                 submission = Some \<lparr> workflow_state = utf16 ''graded'', grade = Null,
                                     score = Num 95, preview_url = None \<rparr> \<rparr>,
              \<lparr> raw_course = utf16 ''Apple'', raw_name = utf16 ''Quiz'',
                 due_at = Some (utf16 ''garbage''), submission = None \<rparr>,
              \<lparr> raw_course = utf16 ''apple'', raw_name = utf16 ''Lab'',
                 due_at = Some (utf16 ''2024-03-10T23:59:00Z''),
                 submission = Some \<lparr> workflow_state = utf16 ''submitted'', grade = Null,
                                     score = Null, preview_url = None \<rparr> \<rparr>])"

section \<open>Shortened names\<close>

lemma split_on_no_match: "\<forall>x\<in>set xs. \<not> p x \<Longrightarrow> split_on p xs = [xs]"
  by (induction xs) auto

lemma shorten_short: "length s \<le> n \<Longrightarrow> shortenAssignmentName s n = s"
  by (simp add: shortenAssignmentName_def)

text \<open>The three branches of \<open>shortenAssignmentName\<close>.\<close>

lemma shorten_cases:
  "shortenAssignmentName s n = s \<and> length s \<le> n
   \<or> (n < length s \<and> shortenAssignmentName s n = trim (last (split_on isSeparator s))
        \<and> 10 < length (shortenAssignmentName s n) \<and> length (shortenAssignmentName s n) \<le> n
        \<and> 1 < length (split_on isSeparator s))
   \<or> (n < length s \<and> shortenAssignmentName s n = take n s @ [ellipsis])"
  by (auto simp: shortenAssignmentName_def Let_def)

lemma shorten_truncated_again:
  assumes "n < length s"
  shows "shortenAssignmentName (take n s @ [ellipsis]) n = take n s @ [ellipsis]
         \<or> length (shortenAssignmentName (take n s @ [ellipsis]) n) \<le> n"
  using shorten_cases [of "take n s @ [ellipsis]" n] assms by auto

lemma shorten_stable_after_two:
  "shortenAssignmentName (shortenAssignmentName (shortenAssignmentName s n) n) n
   = shortenAssignmentName (shortenAssignmentName s n) n"
proof -
  let ?r = "shortenAssignmentName s n"
  consider "length ?r \<le> n" | "n < length s" "?r = take n s @ [ellipsis]"
    using shorten_cases [of s n] by auto
  then show ?thesis
  proof cases
    case 1
    then show ?thesis by (simp add: shorten_short)
  next
    case 2
    from shorten_truncated_again [OF 2(1)] 2(2)
    show ?thesis by (auto simp: shorten_short)
  qed
qed

lemma not_sep_ellipsis: "\<not> isSeparator ellipsis"
  by (simp add: isSeparator_def ellipsis_def)

lemma shorten_idem_no_sep:
  assumes "\<forall>c\<in>set (take n s). \<not> isSeparator c"
  shows "shortenAssignmentName (shortenAssignmentName s n) n = shortenAssignmentName s n"
proof -
  let ?r = "shortenAssignmentName s n"
  consider "length ?r \<le> n" | "n < length s" "?r = take n s @ [ellipsis]"
    using shorten_cases [of s n] by auto
  then show ?thesis
  proof cases
    case 1
    then show ?thesis by (simp add: shorten_short)
  next
    case 2
    have "split_on isSeparator (take n s @ [ellipsis]) = [take n s @ [ellipsis]]"
      using assms not_sep_ellipsis by (intro split_on_no_match) auto
    then show ?thesis using 2
      by (simp add: shortenAssignmentName_def Let_def)
  qed
qed

text \<open>
  C5, as the code has it.  The short name has at most 46 code units, one more than
  \<open>maxLen\<close>: it has exactly 46 when, and only when, the name is longer than 45 and is
  cut to its first 45 code units with the ellipsis appended; returned unchanged or as
  the last split part it has at most 45.
\<close>

theorem shortName_length:
  "length (shortenAssignmentName s defaultMaxLen) \<le> 46
   \<and> (length (shortenAssignmentName s defaultMaxLen) = 46
        \<longleftrightarrow> defaultMaxLen < length s
            \<and> shortenAssignmentName s defaultMaxLen = take defaultMaxLen s @ [ellipsis])"
proof -
  let ?r = "shortenAssignmentName s defaultMaxLen"
  have cut: "length (take defaultMaxLen s @ [ellipsis]) = 46" if "defaultMaxLen < length s"
    using that by (simp add: defaultMaxLen_def)
  consider "length ?r \<le> 45" | "defaultMaxLen < length s" "?r = take defaultMaxLen s @ [ellipsis]"
    using shorten_cases [of s defaultMaxLen] by (auto simp: defaultMaxLen_def)
  then show ?thesis
  proof cases
    case 1
    then show ?thesis using cut by auto
  next
    case 2
    then show ?thesis using cut by simp
  qed
qed

text \<open>
  C5 as stated fails: a name of 60 letters without a separator is shortened to 46
  code units, which is not at most 45.
\<close>

theorem shortName_length_counterexample:
  "\<not> length (shortenAssignmentName (replicate 60 0x0061) defaultMaxLen) \<le> 45"
  by code_simp

text \<open>
  C6, as the code has it.  A second application returns the first result whenever
  that result has at most 45 code units, or the first 45 code units of the name hold
  no separator; and for every name a third application returns the second result.
\<close>

theorem shorten_idempotent_amended:
  "((length (shortenAssignmentName s defaultMaxLen) \<le> defaultMaxLen
      \<or> \<not> (\<exists>c \<in> set (take defaultMaxLen s). isSeparator c))
     \<longrightarrow> shortenAssignmentName (shortenAssignmentName s defaultMaxLen) defaultMaxLen
          = shortenAssignmentName s defaultMaxLen)
   \<and> shortenAssignmentName
         (shortenAssignmentName (shortenAssignmentName s defaultMaxLen) defaultMaxLen) defaultMaxLen
       = shortenAssignmentName (shortenAssignmentName s defaultMaxLen) defaultMaxLen"
proof (intro conjI impI)
  assume "length (shortenAssignmentName s defaultMaxLen) \<le> defaultMaxLen
    \<or> \<not> (\<exists>c \<in> set (take defaultMaxLen s). isSeparator c)"
  then show "shortenAssignmentName (shortenAssignmentName s defaultMaxLen) defaultMaxLen
    = shortenAssignmentName s defaultMaxLen"
  proof
    assume "length (shortenAssignmentName s defaultMaxLen) \<le> defaultMaxLen"
    then show ?thesis by (rule shorten_short)
  next
    assume "\<not> (\<exists>c \<in> set (take defaultMaxLen s). isSeparator c)"
    then show ?thesis by (intro shorten_idem_no_sep) blast
  qed
next
  show "shortenAssignmentName
         (shortenAssignmentName (shortenAssignmentName s defaultMaxLen) defaultMaxLen) defaultMaxLen
       = shortenAssignmentName (shortenAssignmentName s defaultMaxLen) defaultMaxLen"
    by (rule shorten_stable_after_two)
qed

text \<open>
  C6, an instance: the theorem at a name of 60 letters, with no separator among its first 45 code units,
  and shortening it twice gives what shortening it once gives.
\<close>

theorem shorten_idempotent_amended_witness:
  "\<not> (\<exists>c \<in> set (take defaultMaxLen (replicate 60 0x0061)). isSeparator c)
   \<and> shortenAssignmentName (shortenAssignmentName (replicate 60 0x0061) defaultMaxLen) defaultMaxLen
       = shortenAssignmentName (replicate 60 0x0061) defaultMaxLen"
proof -
  have h: "\<not> (\<exists>c \<in> set (take defaultMaxLen (replicate 60 (0x0061 :: 16 word))). isSeparator c)"
    by (simp add: defaultMaxLen_def isSeparator_def)
  with shorten_idempotent_amended [of "replicate 60 0x0061"] show ?thesis
    by blast
qed

text \<open>
  C6 as stated fails: "Homework: " followed by 50 letters is cut to 45 code units and
  the ellipsis; shortened again, that result splits at the colon and its last part,
  35 letters and the ellipsis, is returned instead.
\<close>

theorem shorten_idempotent_counterexample:
  "shortenAssignmentName
     (shortenAssignmentName (utf16 ''Homework: '' @ replicate 50 0x0078) defaultMaxLen) defaultMaxLen
   \<noteq> shortenAssignmentName (utf16 ''Homework: '' @ replicate 50 0x0078) defaultMaxLen"
  by code_simp

section \<open>The seen ledger\<close>

text \<open>
  C2 fails on the code at a slot whose text is not JSON: \<open>JSON.parse\<close> throws, no
  handler catches it, and \<open>getSeenAnnouncements\<close>, \<open>markAnnouncementSeen\<close> and
  \<open>isAnnouncementSeen\<close> all end in the \<open>SyntaxError\<close>.
\<close>

theorem corrupted_ledger_throws:
  "getSeenAnnouncements (Some Malformed) = Inl SyntaxError
   \<and> markAnnouncementSeen id0 postedAt (Some Malformed) = Inl SyntaxError
   \<and> isAnnouncementSeen id0 (Some Malformed) = Inl SyntaxError"
  by (simp add: getSeenAnnouncements_def markAnnouncementSeen_def isAnnouncementSeen_def)

lemma getSeen_Encodes: "getSeenAnnouncements (Some (Encodes m)) = Inr m"
  by (simp add: getSeenAnnouncements_def)

lemma obj_set_other: "k \<noteq> id0 \<Longrightarrow> obj_set seen id0 v k = seen k"
  by (simp add: obj_set_def)

lemma obj_set_same:
  "id0 \<noteq> utf16 ''__proto__'' \<or> seen id0 \<noteq> None \<Longrightarrow> obj_set seen id0 v id0 = Some v"
  by (auto simp: obj_set_def)

lemma proto_in_prototype: "utf16 ''__proto__'' \<in> set objectPrototypeKeys"
  by (simp add: objectPrototypeKeys_def)

lemma js_in_obj_set: "js_in id0 (obj_set seen id0 v)"
  using proto_in_prototype by (auto simp: js_in_def obj_set_def)

text \<open>
  C10, as the code has it.  When the slot is absent, empty or holds the JSON text of
  an object, the ledger \<open>seen\<close>, then \<open>markAnnouncementSeen\<close> returns and leaves a
  slot whose ledger agrees with \<open>seen\<close> on every key other than the id, and
  \<open>isAnnouncementSeen\<close> of the id is true afterwards; the entry of the id is the new
  \<open>postedAt\<close> unless the id is \<open>__proto__\<close> and not yet a key of the ledger.
\<close>

theorem markAnnouncementSeen_frame:
  assumes "getSeenAnnouncements stored = Inr seen"
  shows "\<exists>stored' seen'.
           markAnnouncementSeen id0 postedAt stored = Inr stored'
           \<and> getSeenAnnouncements stored' = Inr seen'
           \<and> (\<forall>k. k \<noteq> id0 \<longrightarrow> seen' k = seen k)
           \<and> ((id0 \<noteq> utf16 ''__proto__'' \<or> seen id0 \<noteq> None) \<longrightarrow> seen' id0 = Some postedAt)
           \<and> isAnnouncementSeen id0 stored' = Inr True"
proof (intro exI conjI)
  show "markAnnouncementSeen id0 postedAt stored = Inr (Some (Encodes (obj_set seen id0 postedAt)))"
    using assms by (simp add: markAnnouncementSeen_def)
  show "getSeenAnnouncements (Some (Encodes (obj_set seen id0 postedAt))) = Inr (obj_set seen id0 postedAt)"
    by (rule getSeen_Encodes)
  show "\<forall>k. k \<noteq> id0 \<longrightarrow> obj_set seen id0 postedAt k = seen k"
    by (simp add: obj_set_other)
  show "(id0 \<noteq> utf16 ''__proto__'' \<or> seen id0 \<noteq> None) \<longrightarrow> obj_set seen id0 postedAt id0 = Some postedAt"
    using obj_set_same by blast
  show "isAnnouncementSeen id0 (Some (Encodes (obj_set seen id0 postedAt))) = Inr True"
    by (simp add: isAnnouncementSeen_def getSeen_Encodes js_in_obj_set)
qed

text \<open>
  C10, an instance: the theorem at a ledger with one entry, where marking another announcement keeps the
  entry, adds the new one, and the announcement is seen.
\<close>

theorem markAnnouncementSeen_frame_witness:
  "getSeenAnnouncements (Some (Encodes [utf16 ''CS_101_Quiz'' \<mapsto> utf16 ''2024-03-01T09:00:00.000Z'']))
     = Inr [utf16 ''CS_101_Quiz'' \<mapsto> utf16 ''2024-03-01T09:00:00.000Z'']
   \<and> (\<exists>stored' seen'.
         markAnnouncementSeen (utf16 ''CS_101_Midterm_Info'') (utf16 ''2024-03-10T08:00:00.000Z'')
           (Some (Encodes [utf16 ''CS_101_Quiz'' \<mapsto> utf16 ''2024-03-01T09:00:00.000Z''])) = Inr stored'
         \<and> getSeenAnnouncements stored' = Inr seen'
         \<and> seen' (utf16 ''CS_101_Quiz'') = Some (utf16 ''2024-03-01T09:00:00.000Z'')
         \<and> seen' (utf16 ''CS_101_Midterm_Info'') = Some (utf16 ''2024-03-10T08:00:00.000Z'')
         \<and> isAnnouncementSeen (utf16 ''CS_101_Midterm_Info'') stored' = Inr True)"
proof -
  let ?m = "[utf16 ''CS_101_Quiz'' \<mapsto> utf16 ''2024-03-01T09:00:00.000Z'']"
  have prior: "getSeenAnnouncements (Some (Encodes ?m)) = Inr ?m"
    by (simp add: getSeenAnnouncements_def)
  have ne: "utf16 ''CS_101_Quiz'' \<noteq> utf16 ''CS_101_Midterm_Info''"
    "utf16 ''CS_101_Midterm_Info'' \<noteq> utf16 ''__proto__''"
    by (simp_all add: utf16_def)
  from markAnnouncementSeen_frame [OF prior, of "utf16 ''CS_101_Midterm_Info''" "utf16 ''2024-03-10T08:00:00.000Z''"]
  obtain stored' seen' where
    "markAnnouncementSeen (utf16 ''CS_101_Midterm_Info'') (utf16 ''2024-03-10T08:00:00.000Z'')
           (Some (Encodes ?m)) = Inr stored'"
    "getSeenAnnouncements stored' = Inr seen'"
    "\<forall>k. k \<noteq> utf16 ''CS_101_Midterm_Info'' \<longrightarrow> seen' k = ?m k"
    "(utf16 ''CS_101_Midterm_Info'' \<noteq> utf16 ''__proto__'' \<or> ?m (utf16 ''CS_101_Midterm_Info'') \<noteq> None)
       \<longrightarrow> seen' (utf16 ''CS_101_Midterm_Info'') = Some (utf16 ''2024-03-10T08:00:00.000Z'')"
    "isAnnouncementSeen (utf16 ''CS_101_Midterm_Info'') stored' = Inr True"
    by blast
  with ne prior show ?thesis
    by (intro conjI exI [of _ stored'] exI [of _ seen']) auto
qed

text \<open>
  C10 as stated fails at two prior states.  On an absent slot, marking the id
  \<open>__proto__\<close> stores the empty ledger: the assignment goes to the setter of
  \<open>Object.prototype\<close>, which ignores a string, and the ledger read back is not the
  prior one with the entry added.  On a slot whose text is not JSON, the call throws
  and stores nothing.
\<close>

theorem markAnnouncementSeen_frame_counterexample:
  "markAnnouncementSeen (utf16 ''__proto__'') (utf16 ''2024-03-10T08:00:00.000Z'') None
     = Inr (Some (Encodes Map.empty))
   \<and> getSeenAnnouncements (Some (Encodes Map.empty))
       \<noteq> Inr (Map.empty (utf16 ''__proto__'' \<mapsto> utf16 ''2024-03-10T08:00:00.000Z''))
   \<and> markAnnouncementSeen (utf16 ''CS_101_Midterm_Info'') (utf16 ''2024-03-10T08:00:00.000Z'')
        (Some Malformed) = Inl SyntaxError"
proof -
  have "Map.empty \<noteq> [utf16 ''__proto__'' \<mapsto> utf16 ''2024-03-10T08:00:00.000Z'']"
    by (metis map_upd_nonempty)
  then show ?thesis
    by (simp add: markAnnouncementSeen_def getSeenAnnouncements_def obj_set_def)
qed

section \<open>Day arithmetic\<close>













section \<open>Normalized assignments\<close>



text \<open>A view has a due date exactly when \<open>due_at\<close> is a non-empty text.\<close>

lemma hasDueDate_iff: "hasDueDate (formatAssignment rt clock a) \<longleftrightarrow> truthyStr (due_at a)"
  by (simp add: formatAssignment_def Let_def)

lemma format_status: "status (formatAssignment rt clock a) = statusStr (submission a)"
  by (simp add: formatAssignment_def Let_def)

lemma sample_fields:
  "due_at (sampleAssignment d sub) = d" "submission (sampleAssignment d sub) = sub"
  by (simp_all add: sampleAssignment_def)

lemma sample_runtime_fields:
  "parseDate sampleRuntime = sampleParse" "localeFormat sampleRuntime = sampleFormat"
  "toLocal sampleRuntime t = t" "fromLocal sampleRuntime l = l"
  by (simp_all add: sampleRuntime_def)





text \<open>
  C1 fails on the code: a \<open>due_at\<close> that is present but does not parse gives an
  invalid \<open>Date\<close> object, which is truthy.  The view then has a due date
  (\<open>hasDueDate\<close> is true) and its \<open>due\<close> text is "Invalid Date", not "No due
  date"; only \<open>urgency\<close> and \<open>isUrgent\<close> come out as the claim says.
\<close>

theorem unparseable_due_at_kept:
  assumes "due_at a = Some s" and "s \<noteq> []" and "parseDate rt s = InvalidDate"
  shows "hasDueDate (formatAssignment rt clock a)
         \<and> due (formatAssignment rt clock a) = utf16 ''Invalid Date''
         \<and> urgency (formatAssignment rt clock a) = NoUrgency
         \<and> isUrgent (formatAssignment rt clock a) = Some False"
  using assms by (simp add: formatAssignment_def Let_def)

text \<open>C1, the failing input: the theorem at a \<open>due_at\<close> that is the text "garbage".\<close>

theorem unparseable_due_at_kept_witness:
  "sampleParse (utf16 ''garbage'') = InvalidDate
   \<and> hasDueDate (formatAssignment sampleRuntime sampleClock
                    (sampleAssignment (Some (utf16 ''garbage'')) None))
   \<and> due (formatAssignment sampleRuntime sampleClock
             (sampleAssignment (Some (utf16 ''garbage'')) None)) = utf16 ''Invalid Date''"
proof -
  have p: "sampleParse (utf16 ''garbage'') = InvalidDate"
    by (simp add: sampleParse_def utf16_def)
  have n: "utf16 ''garbage'' \<noteq> []"
    by (simp add: utf16_def)
  from unparseable_due_at_kept [of "sampleAssignment (Some (utf16 ''garbage'')) None"
      "utf16 ''garbage''" sampleRuntime sampleClock] p n
  show ?thesis
    by (simp add: sample_fields sample_runtime_fields)
qed







text \<open>
  C9 fails on the code: a graded submission without a grade and with the score 0
  gets the status "Graded", the score being falsy, where the claim has "Graded: 0";
  the same submission with the score 95 gets "Graded: 95".
\<close>

theorem graded_zero_score_status:
  "status (formatAssignment rt clock (sampleAssignment d
     (Some \<lparr> workflow_state = utf16 ''graded'', grade = Null, score = Num 0,
             preview_url = None \<rparr>))) = utf16 ''Graded''
   \<and> status (formatAssignment rt clock (sampleAssignment d
     (Some \<lparr> workflow_state = utf16 ''graded'', grade = Null, score = Num 95,
             preview_url = None \<rparr>))) = utf16 ''Graded: 95''"
proof -
  have "statusStr (Some \<lparr> workflow_state = utf16 ''graded'', grade = Null, score = Num 0,
             preview_url = None \<rparr>) = utf16 ''Graded''"
    by code_simp
  moreover have "statusStr (Some \<lparr> workflow_state = utf16 ''graded'', grade = Null,
             score = Num 95, preview_url = None \<rparr>) = utf16 ''Graded: 95''"
    by code_simp
  ultimately show ?thesis
    by (simp add: format_status sample_fields)
qed

section \<open>Token expiration warning\<close>

lemma notifyKey_inj: "notifyKey e = notifyKey e' \<longleftrightarrow> e = e'"
  by (simp add: notifyKey_def)

lemma true_truthy: "utf16 ''true'' \<noteq> []"
  by (simp add: utf16_def)

lemma urgent_tag: "n \<in> set (urgentNotice rt clock assignments) \<Longrightarrow> tag n = utf16 ''assignment-urgent''"
  by (auto simp: urgentNotice_def Let_def split: if_splits)

lemma tags_differ: "utf16 ''assignment-urgent'' \<noteq> utf16 ''canvas-token-expiry''"
  by (simp add: utf16_def)

text \<open>The integer day count of the code is the ceiling of the real quotient.\<close>

lemma ceilDays_ceiling: "ceilDays (expiry - clock) = wholeDaysUntil expiry clock"
proof -
  have "\<lceil>real_of_int (expiry - clock) / real_of_int msPerDay\<rceil> = - (- (expiry - clock) div msPerDay)"
    by (rule ceiling_divide_eq_div)
  then show ?thesis
    by (simp add: ceilDays_def wholeDaysUntil_def msPerDay_def)
qed

lemma wholeDays_nonneg: "0 \<le> wholeDaysUntil expiry clock \<longleftrightarrow> - 86400000 < expiry - clock"
proof -
  let ?x = "expiry - clock"
  have "0 \<le> \<lceil>real_of_int ?x / 86400000\<rceil> \<longleftrightarrow> - 1 < real_of_int ?x / 86400000"
    by (simp add: le_ceiling_iff)
  also have "\<dots> \<longleftrightarrow> - 86400000 < real_of_int ?x"
    by (simp add: field_simps)
  also have "\<dots> \<longleftrightarrow> - 86400000 < ?x"
    by linarith
  finally show ?thesis
    by (simp only: wholeDaysUntil_def)
qed

lemma wholeDays_le_7: "wholeDaysUntil expiry clock \<le> 7 \<longleftrightarrow> expiry - clock \<le> 7 * 86400000"
proof -
  let ?x = "expiry - clock"
  have "\<lceil>real_of_int ?x / 86400000\<rceil> \<le> 7 \<longleftrightarrow> real_of_int ?x / 86400000 \<le> 7"
    by (simp add: ceiling_le_iff)
  also have "\<dots> \<longleftrightarrow> real_of_int ?x \<le> 7 * 86400000"
    by (simp add: field_simps)
  also have "\<dots> \<longleftrightarrow> ?x \<le> 7 * 86400000"
    by linarith
  finally show ?thesis
    by (simp only: wholeDaysUntil_def)
qed

lemma wholeDays_window:
  "0 \<le> wholeDaysUntil expiry clock \<and> wholeDaysUntil expiry clock \<le> 7
     \<longleftrightarrow> - 86400000 < expiry - clock \<and> expiry - clock \<le> 7 * 86400000"
  by (simp only: wholeDays_nonneg wholeDays_le_7)

text \<open>One granted pass: what is shown and stored is what \<open>expiryNotice\<close> gives.\<close>

lemma granted_storage:
  "storage (sendNotifications rt True Granted clock store assignments x)
     = snd (expiryNotice rt clock store x)"
  by (simp add: sendNotifications_def split: prod.splits)

lemma expiryNotice_tags:
  "filter (\<lambda>n. tag n = utf16 ''canvas-token-expiry'') (fst (expiryNotice rt clock store x))
     = fst (expiryNotice rt clock store x)"
proof -
  have "\<forall>n \<in> set (fst (expiryNotice rt clock store x)). tag n = utf16 ''canvas-token-expiry''"
    by (auto simp: expiryNotice_def Let_def split: option.splits jsdate.splits if_splits)
  then show ?thesis
    by simp
qed

lemma urgentNotice_tags:
  "filter (\<lambda>n. tag n = utf16 ''canvas-token-expiry'') (urgentNotice rt clock assignments) = []"
  using urgent_tag tags_differ by (auto simp: filter_empty_conv)

lemma granted_notices:
  "tokenNotices (sendNotifications rt True Granted clock store assignments x)
     = fst (expiryNotice rt clock store x)"
proof -
  have "shown (sendNotifications rt True Granted clock store assignments x)
          = urgentNotice rt clock assignments @ fst (expiryNotice rt clock store x)"
    by (simp add: sendNotifications_def split: prod.splits)
  then show ?thesis
    by (simp add: tokenNotices_def expiryNotice_tags urgentNotice_tags)
qed

lemma expiryNotice_shown:
  assumes "e \<noteq> []" and "parseDate rt (e @ utf16 ''T00:00:00'') = Instant t"
  shows "fst (expiryNotice rt clock store (Some e))
           = (if 0 \<le> wholeDaysUntil t clock \<and> wholeDaysUntil t clock \<le> 7 \<and> \<not> keyFired store e
              then [\<lparr> title = utf16 ''Canvas token expiring soon'',
                      body = utf16 ''Your Canvas API token expires in ''
                             @ showInt (wholeDaysUntil t clock) @ utf16 '' day''
                             @ (if wholeDaysUntil t clock = 1 then [] else utf16 ''s'')
                             @ utf16 ''.'',
                      icon = utf16 ''/favicon.ico'',
                      tag = utf16 ''canvas-token-expiry'' \<rparr>]
              else [])"
  using assms by (simp add: expiryNotice_def Let_def keyFired_def ceilDays_ceiling)

lemma expiryNotice_length: "length (fst (expiryNotice rt clock store x)) \<le> 1"
  by (auto simp: expiryNotice_def Let_def split: option.splits jsdate.splits)

lemma expiryNotice_sets_key:
  "fst (expiryNotice rt clock store (Some e)) \<noteq> [] \<Longrightarrow> keyFired (snd (expiryNotice rt clock store (Some e))) e"
  by (auto simp: expiryNotice_def Let_def keyFired_def true_truthy split: jsdate.splits if_splits)

lemma expiryNotice_fired_silent:
  "keyFired store e \<Longrightarrow> fst (expiryNotice rt clock store (Some e)) = []"
  by (auto simp: expiryNotice_def Let_def keyFired_def split: jsdate.splits)

lemma expiryNotice_keeps_fired:
  "keyFired store e \<Longrightarrow> keyFired (snd (expiryNotice rt clock store x)) e"
  by (auto simp: expiryNotice_def Let_def keyFired_def true_truthy
      split: option.splits jsdate.splits)

lemma expiryNotice_other_key:
  "x \<noteq> Some e' \<Longrightarrow> snd (expiryNotice rt clock store x) (notifyKey e') = store (notifyKey e')"
  by (auto simp: expiryNotice_def Let_def notifyKey_inj split: option.splits jsdate.splits)

lemma expiryNotices_fired:
  "keyFired store e \<Longrightarrow> expiryNotices rt store ps e = 0"
proof (induction ps arbitrary: store)
  case Nil
  then show ?case by simp
next
  case (Cons p ps)
  obtain clock assignments x where p: "p = (clock, assignments, x)"
    by (cases p)
  have "keyFired (snd (expiryNotice rt clock store x)) e"
    using Cons.prems by (rule expiryNotice_keeps_fired)
  then have "expiryNotices rt (snd (expiryNotice rt clock store x)) ps e = 0"
    by (rule Cons.IH)
  moreover have "x = Some e \<longrightarrow> fst (expiryNotice rt clock store x) = []"
    using Cons.prems expiryNotice_fired_silent by blast
  ultimately show ?case
    by (simp add: p Let_def granted_storage granted_notices)
qed

lemma expiryNotices_le_1: "expiryNotices rt store ps e \<le> 1"
proof (induction ps arbitrary: store)
  case Nil
  then show ?case by simp
next
  case (Cons p ps)
  obtain clock assignments x where p: "p = (clock, assignments, x)"
    by (cases p)
  let ?store' = "snd (expiryNotice rt clock store x)"
  show ?case
  proof (cases "x = Some e \<and> fst (expiryNotice rt clock store x) \<noteq> []")
    case True
    then have "keyFired ?store' e"
      using expiryNotice_sets_key by blast
    then have "expiryNotices rt ?store' ps e = 0"
      by (rule expiryNotices_fired)
    with True expiryNotice_length [of rt clock store x] show ?thesis
      by (simp add: p Let_def granted_storage granted_notices)
  next
    case False
    with Cons.IH [of ?store'] show ?thesis
      by (auto simp: p Let_def granted_storage granted_notices)
  qed
qed

lemma storageAfter_other_key:
  "\<forall>p \<in> set ps. snd (snd p) \<noteq> Some e' \<Longrightarrow> storageAfter rt store ps (notifyKey e') = store (notifyKey e')"
proof (induction ps arbitrary: store)
  case Nil
  then show ?case by simp
next
  case (Cons p ps)
  obtain clock assignments x where p: "p = (clock, assignments, x)"
    by (cases p)
  with Cons.prems have "x \<noteq> Some e'" and rest: "\<forall>p \<in> set ps. snd (snd p) \<noteq> Some e'"
    by auto
  then show ?case
    by (simp add: p granted_storage Cons.IH [OF rest] expiryNotice_other_key)
qed

text \<open>
  C7.  Take permission granted and an expiration date \<open>e\<close> that parses, and let the
  day count be the ceiling of the milliseconds until the expiry divided by the
  milliseconds of a day.  A pass shows exactly one token expiration warning, naming
  that day count, if the day count is between 0 and 7 and the dedup key of \<open>e\<close> is
  not set, and none otherwise; the day count is between 0 and 7 exactly when the
  expiry is less than a day past and at most 7 days ahead; a pass that shows the
  warning sets the key; over any sequence of passes at most one warning is shown in
  all while \<open>e\<close> is configured; and passes with other expiration dates leave the
  key of a date \<open>e'\<close> as it was.
\<close>

theorem expiry_warning_once:
  assumes "e \<noteq> []" and "parseDate rt (e @ utf16 ''T00:00:00'') = Instant t"
  shows "tokenNotices (sendNotifications rt True Granted clock store assignments (Some e))
           = (if 0 \<le> wholeDaysUntil t clock \<and> wholeDaysUntil t clock \<le> 7 \<and> \<not> keyFired store e
              then [\<lparr> title = utf16 ''Canvas token expiring soon'',
                      body = utf16 ''Your Canvas API token expires in ''
                             @ showInt (wholeDaysUntil t clock) @ utf16 '' day''
                             @ (if wholeDaysUntil t clock = 1 then [] else utf16 ''s'')
                             @ utf16 ''.'',
                      icon = utf16 ''/favicon.ico'',
                      tag = utf16 ''canvas-token-expiry'' \<rparr>]
              else [])
         \<and> (0 \<le> wholeDaysUntil t clock \<and> wholeDaysUntil t clock \<le> 7
              \<longleftrightarrow> - 86400000 < t - clock \<and> t - clock \<le> 7 * 86400000)
         \<and> (tokenNotices (sendNotifications rt True Granted clock store assignments (Some e)) \<noteq> []
            \<longrightarrow> keyFired
                  (storage (sendNotifications rt True Granted clock store assignments (Some e))) e)
         \<and> expiryNotices rt store ps e \<le> 1
         \<and> ((\<forall>p \<in> set ps. snd (snd p) \<noteq> Some e')
            \<longrightarrow> keyFired (storageAfter rt store ps) e' = keyFired store e')"
proof (intro conjI impI)
  show "tokenNotices (sendNotifications rt True Granted clock store assignments (Some e))
           = (if 0 \<le> wholeDaysUntil t clock \<and> wholeDaysUntil t clock \<le> 7 \<and> \<not> keyFired store e
              then [\<lparr> title = utf16 ''Canvas token expiring soon'',
                      body = utf16 ''Your Canvas API token expires in ''
                             @ showInt (wholeDaysUntil t clock) @ utf16 '' day''
                             @ (if wholeDaysUntil t clock = 1 then [] else utf16 ''s'')
                             @ utf16 ''.'',
                      icon = utf16 ''/favicon.ico'',
                      tag = utf16 ''canvas-token-expiry'' \<rparr>]
              else [])"
    unfolding granted_notices using assms by (rule expiryNotice_shown)
  show "0 \<le> wholeDaysUntil t clock \<and> wholeDaysUntil t clock \<le> 7
          \<longleftrightarrow> - 86400000 < t - clock \<and> t - clock \<le> 7 * 86400000"
    by (rule wholeDays_window)
  show "keyFired (storage (sendNotifications rt True Granted clock store assignments (Some e))) e"
    if "tokenNotices (sendNotifications rt True Granted clock store assignments (Some e)) \<noteq> []"
    using that by (simp add: granted_notices granted_storage expiryNotice_sets_key)
  show "expiryNotices rt store ps e \<le> 1"
    by (rule expiryNotices_le_1)
  show "keyFired (storageAfter rt store ps) e' = keyFired store e'"
    if "\<forall>p \<in> set ps. snd (snd p) \<noteq> Some e'"
    using that by (simp add: keyFired_def storageAfter_other_key)
qed

text \<open>
  C7, an instance: the theorem at the expiration date 2024-03-17 in UTC with the
  clock at 2024-03-10 08:00 and an empty storage.  The expiry is 6 days and 16 hours
  ahead, the day count is 7, the first pass shows one warning naming 7 days and sets
  the key, two passes show at most one warning, and the key of 2024-03-16 is still
  unset after them.
\<close>

theorem expiry_warning_once_witness:
  "sampleParse (utf16 ''2024-03-17'' @ utf16 ''T00:00:00'') = Instant 1710633600000
   \<and> wholeDaysUntil 1710633600000 sampleClock = 7
   \<and> map body (tokenNotices
        (sendNotifications sampleRuntime True Granted sampleClock Map.empty []
           (Some (utf16 ''2024-03-17''))))
       = [utf16 ''Your Canvas API token expires in 7 days.'']
   \<and> keyFired
        (storage (sendNotifications sampleRuntime True Granted sampleClock Map.empty []
           (Some (utf16 ''2024-03-17'')))) (utf16 ''2024-03-17'')
   \<and> expiryNotices sampleRuntime Map.empty
        [(sampleClock, [], Some (utf16 ''2024-03-17'')),
         (sampleClock, [], Some (utf16 ''2024-03-17''))] (utf16 ''2024-03-17'') \<le> 1
   \<and> \<not> keyFired
        (storageAfter sampleRuntime Map.empty
           [(sampleClock, [], Some (utf16 ''2024-03-17'')),
            (sampleClock, [], Some (utf16 ''2024-03-17''))]) (utf16 ''2024-03-16'')"
proof -
  let ?e = "utf16 ''2024-03-17''"
  let ?ps = "[(sampleClock, [], Some ?e), (sampleClock, [], Some ?e)]"
  let ?r = "sendNotifications sampleRuntime True Granted sampleClock Map.empty [] (Some ?e)"
  have p: "parseDate sampleRuntime (?e @ utf16 ''T00:00:00'') = Instant 1710633600000"
    by (simp add: sample_runtime_fields sampleParse_def utf16_def)
  have n: "?e \<noteq> []"
    by (simp add: utf16_def)
  have c: "wholeDaysUntil 1710633600000 sampleClock = 7"
    by (simp add: ceilDays_ceiling [symmetric] ceilDays_def sampleClock_def msPerDay_def)
  have k: "\<not> keyFired Map.empty e" for e
    by (simp add: keyFired_def)
  have o: "\<forall>p \<in> set ?ps. snd (snd p) \<noteq> Some (utf16 ''2024-03-16'')"
    by (simp add: utf16_def)
  have seven: "showInt 7 = utf16 ''7''"
    by code_simp
  note th = expiry_warning_once [OF n p, of sampleClock Map.empty "[]" ?ps "utf16 ''2024-03-16''"]
  from th have notices: "map body (tokenNotices ?r) = [utf16 ''Your Canvas API token expires in 7 days.'']"
    by (simp add: c k seven utf16_def del: expiryNotices.simps storageAfter.simps)
  from th notices have key: "keyFired (storage ?r) ?e"
    by auto
  from th have once: "expiryNotices sampleRuntime Map.empty ?ps ?e \<le> 1"
    by blast
  from th o k have other: "\<not> keyFired (storageAfter sampleRuntime Map.empty ?ps) (utf16 ''2024-03-16'')"
    by blast
  from p c notices key once other show ?thesis
    by (simp only: sample_runtime_fields) simp
qed

text \<open>
  The bounds of the window, run in UTC with the expiration date 2024-03-17: exactly
  7 days before the expiry the warning names 7 days, a millisecond earlier none is
  shown; a millisecond less than a day after the expiry the warning names 0 days, a
  full day after none is shown; 23 hours before the expiry it names 1 day.
\<close>

lemma expiry_window_bounds:
  "map body (tokenNotices (sendNotifications sampleRuntime True Granted 1710028800000 Map.empty []
       (Some (utf16 ''2024-03-17'')))) = [utf16 ''Your Canvas API token expires in 7 days.'']
   \<and> tokenNotices (sendNotifications sampleRuntime True Granted 1710028799999 Map.empty []
       (Some (utf16 ''2024-03-17''))) = []
   \<and> map body (tokenNotices (sendNotifications sampleRuntime True Granted 1710719999999 Map.empty []
       (Some (utf16 ''2024-03-17'')))) = [utf16 ''Your Canvas API token expires in 0 days.'']
   \<and> tokenNotices (sendNotifications sampleRuntime True Granted 1710720000000 Map.empty []
       (Some (utf16 ''2024-03-17''))) = []
   \<and> map body (tokenNotices (sendNotifications sampleRuntime True Granted 1710550800000 Map.empty []
       (Some (utf16 ''2024-03-17'')))) = [utf16 ''Your Canvas API token expires in 1 day.'']"
  by code_simp

text \<open>
  Scenario F of the specification, run: of three passes, two with the date
  2024-03-17 and then one with 2024-03-16, exactly one warning is shown for each
  date.
\<close>

lemma scenario_F:
  "expiryNotices sampleRuntime Map.empty
        [(sampleClock, [], Some (utf16 ''2024-03-17'')),
         (sampleClock, [], Some (utf16 ''2024-03-17'')),
         (sampleClock, [], Some (utf16 ''2024-03-16''))] (utf16 ''2024-03-17'') = 1
  \<and> expiryNotices sampleRuntime Map.empty
        [(sampleClock, [], Some (utf16 ''2024-03-17'')),
         (sampleClock, [], Some (utf16 ''2024-03-17'')),
         (sampleClock, [], Some (utf16 ''2024-03-16''))] (utf16 ''2024-03-16'') = 1"
  by code_simp

section \<open>Sorting\<close>

lemma js_insert_insort:
  fixes f :: "'a \<Rightarrow> 'k::linorder"
  assumes "\<And>x y. positive (cmp x y) \<longleftrightarrow> f y < f x"
  shows "js_insert cmp x ys = insort_key f x ys"
  by (induction ys) (auto simp: assms)

text \<open>
  A comparator that is positive exactly when the first argument has the greater key
  sorts as the stable insertion sort by that key does.
\<close>

lemma js_sort_sort_key:
  fixes f :: "'a \<Rightarrow> 'k::linorder"
  assumes "\<And>x y. positive (cmp x y) \<longleftrightarrow> f y < f x"
  shows "js_sort cmp xs = sort_key f xs"
  unfolding js_sort_def sort_key_def
  by (induction xs) (simp_all add: js_insert_insort [OF assms])

lemma asc_ne_desc: "utf16 ''desc'' \<noteq> utf16 ''asc''"
  by (simp add: utf16_def)

lemma asc_cmp:
  "positive (js_minus (dateValue rt a (utf16 ''asc'')) (dateValue rt b (utf16 ''asc'')))
   \<longleftrightarrow> ascKey rt b < ascKey rt a"
  by (auto simp: dateValue_def ascKey_def instantKey_def dueInstant_def split: jsdate.splits)

lemma desc_cmp:
  "positive (js_minus (dateValue rt b (utf16 ''desc'')) (dateValue rt a (utf16 ''desc'')))
   \<longleftrightarrow> descKey rt b < descKey rt a"
  by (auto simp: dateValue_def descKey_def instantKey_def dueInstant_def asc_ne_desc
      split: jsdate.splits)

lemma sort_keys_distinct:
  "utf16 ''due-asc'' \<noteq> utf16 ''due-desc''" "utf16 ''due-asc'' \<noteq> utf16 ''course''"
  "utf16 ''due-asc'' \<noteq> utf16 ''status''" "utf16 ''course'' \<noteq> utf16 ''due-desc''"
  "utf16 ''status'' \<noteq> utf16 ''due-desc''" "utf16 ''status'' \<noteq> utf16 ''course''"
  by (simp_all add: utf16_def)

lemma sort_due_asc:
  "sortAssignments rt lc xs (utf16 ''due-asc'') = sort_key (ascKey rt) xs"
  by (simp add: sortAssignments_def sort_keys_distinct js_sort_sort_key [of _ "ascKey rt"] asc_cmp)

lemma sort_due_desc:
  "sortAssignments rt lc xs (utf16 ''due-desc'') = sort_key (descKey rt) xs"
  by (simp add: sortAssignments_def js_sort_sort_key [of _ "descKey rt"] desc_cmp)

lemma sort_course:
  fixes key :: "jsstring \<Rightarrow> 'k::linorder"
  assumes "\<And>x y. 0 < lc x y \<longleftrightarrow> key y < key x"
  shows "sortAssignments rt lc xs (utf16 ''course'') = sort_key (\<lambda>a. key (course a)) xs"
  by (simp add: sortAssignments_def sort_keys_distinct
      js_sort_sort_key [of _ "\<lambda>a. key (course a)"] assms)

lemma sort_status:
  fixes key :: "jsstring \<Rightarrow> 'k::linorder"
  assumes "\<And>x y. 0 < lc x y \<longleftrightarrow> key y < key x"
  shows "sortAssignments rt lc xs (utf16 ''status'') = sort_key (\<lambda>a. key (status a)) xs"
  by (simp add: sortAssignments_def sort_keys_distinct
      js_sort_sort_key [of _ "\<lambda>a. key (status a)"] assms)

lemma sort_default:
  assumes "sortBy \<noteq> utf16 ''due-desc''" "sortBy \<noteq> utf16 ''course''" "sortBy \<noteq> utf16 ''status''"
  shows "sortAssignments rt lc xs sortBy = sortAssignments rt lc xs (utf16 ''due-asc'')"
  using assms by (simp add: sortAssignments_def sort_keys_distinct)

lemma ascKey_le: "ascKey rt a \<le> ascKey rt b \<longleftrightarrow> dueAscending rt a b"
  by (auto simp: ascKey_def instantKey_def dueAscending_def split: option.splits)

lemma descKey_le: "descKey rt a \<le> descKey rt b \<longleftrightarrow> dueDescending rt a b"
  by (auto simp: descKey_def instantKey_def dueDescending_def split: option.splits)

lemma instantKey_inj: "instantKey d j = instantKey d k \<longleftrightarrow> j = k"
  by (auto simp: instantKey_def split: option.splits)

lemma sorted_by_key: "sorted_wrt (\<lambda>a b. f a \<le> f b) (sort_key f xs)"
  using sorted_sort_key [of f xs] by (simp add: sorted_map)

lemma stable_due_asc:
  "filter (\<lambda>a. dueInstant rt a = k) (sort_key (ascKey rt) xs) = filter (\<lambda>a. dueInstant rt a = k) xs"
  using sort_key_stable [of "ascKey rt" "instantKey False k" xs]
  by (simp add: ascKey_def instantKey_inj)

lemma stable_due_desc:
  "filter (\<lambda>a. dueInstant rt a = k) (sort_key (descKey rt) xs) = filter (\<lambda>a. dueInstant rt a = k) xs"
  using sort_key_stable [of "descKey rt" "instantKey True k" xs]
  by (simp add: descKey_def instantKey_inj)

lemma collation_le:
  fixes key :: "jsstring \<Rightarrow> 'k::linorder"
    and lc :: "jsstring \<Rightarrow> jsstring \<Rightarrow> int"
  assumes "\<And>x y. 0 < lc x y \<longleftrightarrow> key y < key x"
  shows "lc x y \<le> 0 \<longleftrightarrow> key x \<le> key y"
proof -
  have "lc x y \<le> 0 \<longleftrightarrow> \<not> 0 < lc x y"
    by (simp add: not_less)
  also have "\<dots> \<longleftrightarrow> \<not> key y < key x"
    by (simp only: assms)
  also have "\<dots> \<longleftrightarrow> key x \<le> key y"
    by (simp add: not_less)
  finally show ?thesis .
qed

lemma sorted_by_collation:
  fixes key :: "jsstring \<Rightarrow> 'k::linorder"
    and lc :: "jsstring \<Rightarrow> jsstring \<Rightarrow> int"
    and f :: "'a \<Rightarrow> jsstring"
  assumes "\<And>x y. 0 < lc x y \<longleftrightarrow> key y < key x"
  shows "sorted_wrt (\<lambda>a b. lc (f a) (f b) \<le> 0) (sort_key (\<lambda>a. key (f a)) xs)"
proof -
  have le: "lc x y \<le> 0 \<longleftrightarrow> key x \<le> key y" for x y
    using assms by (rule collation_le)
  show ?thesis
    using sorted_by_key [of "\<lambda>a. key (f a)" xs] by (simp only: le)
qed

lemma stable_by_collation:
  fixes key :: "jsstring \<Rightarrow> 'k::linorder"
    and lc :: "jsstring \<Rightarrow> jsstring \<Rightarrow> int"
    and f :: "'a \<Rightarrow> jsstring"
  assumes "\<And>x y. 0 < lc x y \<longleftrightarrow> key y < key x"
  shows "filter (\<lambda>a. lc (f a) c \<le> 0 \<and> lc c (f a) \<le> 0) (sort_key (\<lambda>a. key (f a)) xs)
         = filter (\<lambda>a. lc (f a) c \<le> 0 \<and> lc c (f a) \<le> 0) xs"
proof -
  have le: "lc x y \<le> 0 \<longleftrightarrow> key x \<le> key y" for x y
    using assms by (rule collation_le)
  have "(lc x c \<le> 0 \<and> lc c x \<le> 0) \<longleftrightarrow> key x = key c" for x
    unfolding le by auto
  then show ?thesis
    using sort_key_stable [of "\<lambda>a. key (f a)" "key c" xs] by simp
qed

lemma mset_sortAssignments:
  fixes key :: "jsstring \<Rightarrow> 'k::linorder"
  assumes "\<And>x y. 0 < lc x y \<longleftrightarrow> key y < key x"
  shows "mset (sortAssignments rt lc xs sortBy) = mset xs"
proof -
  consider "sortBy = utf16 ''due-desc''" | "sortBy = utf16 ''course''" | "sortBy = utf16 ''status''"
    | "sortBy \<noteq> utf16 ''due-desc''" "sortBy \<noteq> utf16 ''course''" "sortBy \<noteq> utf16 ''status''"
    by blast
  then show ?thesis
  proof cases
    case 1
    then show ?thesis by (simp add: sort_due_desc)
  next
    case 2
    then show ?thesis by (simp add: sort_course [OF assms])
  next
    case 3
    then show ?thesis by (simp add: sort_status [OF assms])
  next
    case 4
    then show ?thesis by (simp add: sort_default sort_due_asc)
  qed
qed

text \<open>
  C8, as the code has it.  \<open>localeCompare\<close> is taken to be a consistent
  comparator: it is positive exactly when its first argument has the greater
  collation key, for some key into a linear order.  Then, for every list and every
  sort key, \<open>sortAssignments\<close> returns a permutation of the list; under
  \<open>due-asc\<close> it is in ascending and under \<open>due-desc\<close> in descending order of
  due instant, with the views whose due date is missing or unparseable behind all
  others in both; under \<open>course\<close> and \<open>status\<close> it is in ascending order of
  that field in the order of \<open>localeCompare\<close>, the collation of the locale; each
  sort is stable, the views that compare equal keeping the order they had; and any
  other sort key sorts as \<open>due-asc\<close> does.
\<close>

theorem sortAssignments_stable_sort:
  fixes key :: "jsstring \<Rightarrow> 'k::linorder"
  assumes "\<And>x y. 0 < localeCompare x y \<longleftrightarrow> key y < key x"
  shows "mset (sortAssignments rt localeCompare xs sortBy) = mset xs
    \<and> sorted_wrt (dueAscending rt) (sortAssignments rt localeCompare xs (utf16 ''due-asc''))
    \<and> filter (\<lambda>a. dueInstant rt a = k) (sortAssignments rt localeCompare xs (utf16 ''due-asc''))
        = filter (\<lambda>a. dueInstant rt a = k) xs
    \<and> sorted_wrt (dueDescending rt) (sortAssignments rt localeCompare xs (utf16 ''due-desc''))
    \<and> filter (\<lambda>a. dueInstant rt a = k) (sortAssignments rt localeCompare xs (utf16 ''due-desc''))
        = filter (\<lambda>a. dueInstant rt a = k) xs
    \<and> sorted_wrt (\<lambda>a b. localeCompare (course a) (course b) \<le> 0)
        (sortAssignments rt localeCompare xs (utf16 ''course''))
    \<and> filter (\<lambda>a. localeCompare (course a) c \<le> 0 \<and> localeCompare c (course a) \<le> 0)
          (sortAssignments rt localeCompare xs (utf16 ''course''))
        = filter (\<lambda>a. localeCompare (course a) c \<le> 0 \<and> localeCompare c (course a) \<le> 0) xs
    \<and> sorted_wrt (\<lambda>a b. localeCompare (status a) (status b) \<le> 0)
        (sortAssignments rt localeCompare xs (utf16 ''status''))
    \<and> filter (\<lambda>a. localeCompare (status a) c \<le> 0 \<and> localeCompare c (status a) \<le> 0)
          (sortAssignments rt localeCompare xs (utf16 ''status''))
        = filter (\<lambda>a. localeCompare (status a) c \<le> 0 \<and> localeCompare c (status a) \<le> 0) xs
    \<and> (sortBy \<notin> {utf16 ''due-desc'', utf16 ''course'', utf16 ''status''}
        \<longrightarrow> sortAssignments rt localeCompare xs sortBy
            = sortAssignments rt localeCompare xs (utf16 ''due-asc''))"
proof (intro conjI impI)
  show "mset (sortAssignments rt localeCompare xs sortBy) = mset xs"
    by (rule mset_sortAssignments [OF assms])
  show "sorted_wrt (dueAscending rt) (sortAssignments rt localeCompare xs (utf16 ''due-asc''))"
    using sorted_by_key [of "ascKey rt" xs] by (simp add: sort_due_asc ascKey_le)
  show "filter (\<lambda>a. dueInstant rt a = k) (sortAssignments rt localeCompare xs (utf16 ''due-asc''))
        = filter (\<lambda>a. dueInstant rt a = k) xs"
    by (simp add: sort_due_asc stable_due_asc)
  show "sorted_wrt (dueDescending rt) (sortAssignments rt localeCompare xs (utf16 ''due-desc''))"
    using sorted_by_key [of "descKey rt" xs] by (simp add: sort_due_desc descKey_le)
  show "filter (\<lambda>a. dueInstant rt a = k) (sortAssignments rt localeCompare xs (utf16 ''due-desc''))
        = filter (\<lambda>a. dueInstant rt a = k) xs"
    by (simp add: sort_due_desc stable_due_desc)
  show "sorted_wrt (\<lambda>a b. localeCompare (course a) (course b) \<le> 0)
        (sortAssignments rt localeCompare xs (utf16 ''course''))"
    unfolding sort_course [OF assms] by (rule sorted_by_collation [OF assms, where f = course])
  show "filter (\<lambda>a. localeCompare (course a) c \<le> 0 \<and> localeCompare c (course a) \<le> 0)
          (sortAssignments rt localeCompare xs (utf16 ''course''))
        = filter (\<lambda>a. localeCompare (course a) c \<le> 0 \<and> localeCompare c (course a) \<le> 0) xs"
    unfolding sort_course [OF assms] by (rule stable_by_collation [OF assms, where f = course])
  show "sorted_wrt (\<lambda>a b. localeCompare (status a) (status b) \<le> 0)
        (sortAssignments rt localeCompare xs (utf16 ''status''))"
    unfolding sort_status [OF assms] by (rule sorted_by_collation [OF assms, where f = status])
  show "filter (\<lambda>a. localeCompare (status a) c \<le> 0 \<and> localeCompare c (status a) \<le> 0)
          (sortAssignments rt localeCompare xs (utf16 ''status''))
        = filter (\<lambda>a. localeCompare (status a) c \<le> 0 \<and> localeCompare c (status a) \<le> 0) xs"
    unfolding sort_status [OF assms] by (rule stable_by_collation [OF assms, where f = status])
  show "sortAssignments rt localeCompare xs sortBy
            = sortAssignments rt localeCompare xs (utf16 ''due-asc'')"
    if "sortBy \<notin> {utf16 ''due-desc'', utf16 ''course'', utf16 ''status''}"
    using that by (intro sort_default) auto
qed

lemma sampleLocaleCompare_key:
  "0 < sampleLocaleCompare x y \<longleftrightarrow> collationKey y < collationKey x"
  by (auto simp: sampleLocaleCompare_def)

text \<open>
  C8, an instance: the theorem at the collation of the English locale, which is such
  a comparator, on three normalized assignments that differ in course, status and
  due date, one of them with an unparseable due date.
\<close>

theorem sortAssignments_stable_sort_witness:
  "(\<forall>x y. 0 < sampleLocaleCompare x y \<longleftrightarrow> collationKey y < collationKey x)
   \<and> utf16 ''newest'' \<notin> {utf16 ''due-desc'', utf16 ''course'', utf16 ''status''}
   \<and> mset (sortAssignments sampleRuntime sampleLocaleCompare sampleViews (utf16 ''newest''))
       = mset sampleViews
   \<and> sorted_wrt (dueAscending sampleRuntime)
        (sortAssignments sampleRuntime sampleLocaleCompare sampleViews (utf16 ''due-asc''))
   \<and> sorted_wrt (dueDescending sampleRuntime)
        (sortAssignments sampleRuntime sampleLocaleCompare sampleViews (utf16 ''due-desc''))
   \<and> sorted_wrt (\<lambda>a b. sampleLocaleCompare (course a) (course b) \<le> 0)
        (sortAssignments sampleRuntime sampleLocaleCompare sampleViews (utf16 ''course''))
   \<and> sorted_wrt (\<lambda>a b. sampleLocaleCompare (status a) (status b) \<le> 0)
        (sortAssignments sampleRuntime sampleLocaleCompare sampleViews (utf16 ''status''))
   \<and> sortAssignments sampleRuntime sampleLocaleCompare sampleViews (utf16 ''newest'')
       = sortAssignments sampleRuntime sampleLocaleCompare sampleViews (utf16 ''due-asc'')"
proof -
  have n: "utf16 ''newest'' \<notin> {utf16 ''due-desc'', utf16 ''course'', utf16 ''status''}"
    by (simp add: utf16_def)
  from sortAssignments_stable_sort [of sampleLocaleCompare collationKey sampleRuntime sampleViews
      "utf16 ''newest''" None "[]", OF sampleLocaleCompare_key] n sampleLocaleCompare_key
  show ?thesis
    by blast
qed

text \<open>
  C8 as stated fails for the string fields: in the collation of the English locale
  the courses "Banana", "Apple", "apple" are sorted to "apple", "Apple", "Banana",
  which is not ascending in the lexicographic order of the strings, where "Apple"
  comes before "apple".
\<close>

theorem sortAssignments_lexicographic_counterexample:
  "map course (sortAssignments sampleRuntime sampleLocaleCompare sampleViews (utf16 ''course''))
     = [utf16 ''apple'', utf16 ''Apple'', utf16 ''Banana'']
   \<and> utf16 ''Apple'' < utf16 ''apple''
   \<and> \<not> sorted
        (map course (sortAssignments sampleRuntime sampleLocaleCompare sampleViews (utf16 ''course'')))"
  by code_simp

text \<open>
  The three assignments sorted by each key: by due date, the unparseable one
  ("Apple") last in both directions; by course; by status ("Graded: 95", "Not
  submitted", "Submitted").
\<close>

lemma sample_sort:
  "map course (sortAssignments sampleRuntime sampleLocaleCompare sampleViews (utf16 ''due-asc''))
     = [utf16 ''apple'', utf16 ''Banana'', utf16 ''Apple'']
   \<and> map course (sortAssignments sampleRuntime sampleLocaleCompare sampleViews (utf16 ''due-desc''))
     = [utf16 ''Banana'', utf16 ''apple'', utf16 ''Apple'']
   \<and> map course (sortAssignments sampleRuntime sampleLocaleCompare sampleViews (utf16 ''course''))
     = [utf16 ''apple'', utf16 ''Apple'', utf16 ''Banana'']
   \<and> map status (sortAssignments sampleRuntime sampleLocaleCompare sampleViews (utf16 ''status''))
     = [utf16 ''Graded: 95'', utf16 ''Not submitted'', utf16 ''Submitted'']"
  by code_simp

end
